theory Spec2Isabelle
  imports Main
begin

section \<open>Python exceptions and statement completions\<close>

text \<open>
  The exceptions that the two modules raise or let pass. \<open>SystemExit\<close>,
  \<open>KeyboardInterrupt\<close> and \<open>CancelledError\<close> derive from \<open>BaseException\<close> only,
  so a clause \<^verbatim>\<open>except Exception\<close> does not catch them; the others derive from
  \<open>Exception\<close>.
\<close>

datatype exn =
    JSONDecodeError
  | UnboundLocalError
  | RuntimeError string
  | OtherException string
  | SystemExit
  | KeyboardInterrupt
  | CancelledError

fun is_Exception :: "exn \<Rightarrow> bool" where
  "is_Exception SystemExit = False"
| "is_Exception KeyboardInterrupt = False"
| "is_Exception CancelledError = False"
| "is_Exception _ = True"

text \<open>
  How a block of statements ends: it falls through (\<open>Normal\<close>), executes a
  \<^verbatim>\<open>return\<close>, or raises.
\<close>

datatype 'a completion = Normal | Return 'a | Raise exn

text \<open>
  \<^verbatim>\<open>try: ... finally: F\<close>: the block \<open>F\<close> always runs; when it falls through, the
  pending completion of the protected statement stands, and when it returns or raises
  itself, the pending completion (a pending exception included) is discarded.
\<close>

definition finally_clause :: "'a completion \<Rightarrow> 'a completion \<Rightarrow> 'a completion" where
  "finally_clause pending fin = (case fin of Normal \<Rightarrow> pending | _ \<Rightarrow> fin)"

section \<open>webhook.py\<close>

record Response =
  status :: nat

text \<open>\<^verbatim>\<open>web.Response(status=...)\<close>; the status defaults to 200.\<close>

definition web_Response :: "nat option \<Rightarrow> Response" where
  "web_Response st = \<lparr>status = (case st of None \<Rightarrow> 200 | Some s \<Rightarrow> s)\<rparr>"

text \<open>
  A request carries the variables that the router matched in its path
  (\<^verbatim>\<open>request.match_info\<close>) and a body.
\<close>

record 'b Request =
  match_info :: "string \<rightharpoonup> string"
  payload :: 'b

text \<open>
  The collaborators of the handler live outside the two modules and are parameters:
  \<^verbatim>\<open>await request.json()\<close>, \<^verbatim>\<open>types.Update.de_json\<close> and
  \<^verbatim>\<open>bot_runner.bot.process_new_updates\<close>. Each of them may raise any exception.
\<close>

record ('b, 'j, 'u, 'r) collaborators =
  request_json :: "'b \<Rightarrow> exn + 'j"
  de_json :: "'j \<Rightarrow> exn + 'u option"
  process_new_updates :: "'r \<Rightarrow> 'u list \<Rightarrow> exn option"

text \<open>
  \<^verbatim>\<open>bot_runner_by_route = {bw.webhook_route(): bw for bw in bot_runners}\<close>: a later
  runner with the same route replaces an earlier one.
\<close>

definition bot_runner_by_route :: "('r \<Rightarrow> string) \<Rightarrow> 'r list \<Rightarrow> (string \<rightharpoonup> 'r)" where
  "bot_runner_by_route webhook_route bot_runners =
     fold (\<lambda>bw m. m(webhook_route bw \<mapsto> bw)) bot_runners Map.empty"

text \<open>
  What the handler did besides answering: the calls of \<open>process_new_updates\<close> it made
  and the lines it logged.
\<close>

datatype ('u, 'r) effect = Processed 'r "'u list" | LoggedException

text \<open>
  The body of the \<^verbatim>\<open>try\<close>. The local variable \<open>update\<close> is unbound (\<open>None\<close>) until
  the assignment has completed, bound to Python's \<open>None\<close> (\<open>Some None\<close>) or to an
  update.
\<close>

definition try_block ::
  "('b, 'j, 'u, 'r) collaborators \<Rightarrow> 'r \<Rightarrow> 'b Request
     \<Rightarrow> Response completion \<times> 'u option option \<times> ('u, 'r) effect list" where
  "try_block ext bot_runner request =
     (case request_json ext (payload request) of
        Inl e \<Rightarrow> (Raise e, None, [])
      | Inr j \<Rightarrow>
          (case de_json ext j of
             Inl e \<Rightarrow> (Raise e, None, [])
           | Inr update \<Rightarrow>
               (case update of
                  None \<Rightarrow> (Normal, Some update, [])
                | Some u \<Rightarrow>
                    (case process_new_updates ext bot_runner [u] of
                       None \<Rightarrow> (Normal, Some update, [Processed bot_runner [u]])
                     | Some e \<Rightarrow> (Raise e, Some update, [Processed bot_runner [u]])))))"

text \<open>
  The body of \<^verbatim>\<open>except Exception as e\<close>: reading \<open>update\<close> while it is unbound raises
  \<open>UnboundLocalError\<close> before anything is logged.
\<close>

definition except_block :: "'u option option \<Rightarrow> Response completion \<times> ('u, 'r) effect list" where
  "except_block update =
     (case update of
        None \<Rightarrow> (Raise UnboundLocalError, [])
      | Some _ \<Rightarrow> (Normal, [LoggedException]))"

definition handle_update ::
  "('b, 'j, 'u, 'r) collaborators \<Rightarrow> (string \<rightharpoonup> 'r) \<Rightarrow> 'b Request
     \<Rightarrow> Response completion \<times> ('u, 'r) effect list" where
  "handle_update ext by_route request =
     (case match_info request ''route'' of
        None \<Rightarrow> (Return (web_Response (Some 404)), [])
      | Some route \<Rightarrow>
          (case by_route route of
             None \<Rightarrow> (Return (web_Response (Some 403)), [])
           | Some bot_runner \<Rightarrow>
               (let (c, update, effs) = try_block ext bot_runner request;
                    (c', effs') =
                      (case c of
                         Raise e \<Rightarrow>
                           if is_Exception e
                           then (let (h, logged) = except_block update in (h, effs @ logged))
                           else (c, effs)
                       | _ \<Rightarrow> (c, effs))
                in (finally_clause c' (Return (web_Response None)), effs'))))"

section \<open>graceful_shutdown.py\<close>

text \<open>
  Python attributes whose names start with an underscore are written with the prefix
  \<open>attr_\<close>.
\<close>

subsection \<open>GracefulShutdownCondition\<close>

text \<open>
  A condition holds a predicate and a description. The predicate is a callable without
  arguments that reads the state of the program when it is awaited; that state is the
  parameter \<open>'w\<close>. Awaiting it gives a truth value or raises.
\<close>

record 'w GracefulShutdownCondition =
  predicate :: "'w \<Rightarrow> exn + bool"
  description :: string

definition is_ready :: "'w GracefulShutdownCondition \<Rightarrow> 'w \<Rightarrow> exn + bool" where
  "is_ready self w = predicate self w"

subsection \<open>PreventShutdown\<close>

record PreventShutdown =
  attr_is_preventing_shutdown :: bool
  attr_reason :: string

definition is_ready_to_shutdown :: "PreventShutdown \<Rightarrow> bool" where
  "is_ready_to_shutdown self = (\<not> attr_is_preventing_shutdown self)"

text \<open>
  \<^verbatim>\<open>PreventShutdown.__init__\<close>: the attributes of the new guard, and what it passes to
  the initialiser of its base class: the bound method \<open>self.is_ready_to_shutdown\<close>, which
  reads the guard where it lives (address \<open>a\<close> of a store of guards) at the moment of
  the call, and the description.
\<close>

definition PreventShutdown_init :: "string \<Rightarrow> PreventShutdown" where
  "PreventShutdown_init reason =
     \<lparr>attr_is_preventing_shutdown = False, attr_reason = reason\<rparr>"

definition as_condition :: "'a \<Rightarrow> PreventShutdown \<Rightarrow> ('a \<Rightarrow> PreventShutdown) GracefulShutdownCondition" where
  "as_condition a self =
     \<lparr>predicate = (\<lambda>store. Inr (is_ready_to_shutdown (store a))),
      description = ''Preventing shutdown, '' @ attr_reason self\<rparr>"

text \<open>
  \<^verbatim>\<open>__aenter__\<close> and \<^verbatim>\<open>__aexit__\<close>. Both return Python's \<open>None\<close>; for
  \<^verbatim>\<open>__aexit__\<close> the first component is the truth value of what it returns, which
  tells the \<^verbatim>\<open>async with\<close> statement whether to suppress a pending exception.
\<close>

definition aenter :: "PreventShutdown \<Rightarrow> PreventShutdown" where
  "aenter self = self\<lparr>attr_is_preventing_shutdown := True\<rparr>"

definition aexit :: "PreventShutdown \<Rightarrow> bool \<times> PreventShutdown" where
  "aexit self = (False, self\<lparr>attr_is_preventing_shutdown := False\<rparr>)"

text \<open>
  A guarded body receives the guard, may change it (it may open further scopes on it)
  and completes in one of the three ways.

  \<^verbatim>\<open>async with self: body\<close>: enter, run the body, exit; an exception of the body is
  raised again after the exit unless the exit asked to suppress it.
\<close>

definition async_with ::
  "(PreventShutdown \<Rightarrow> 'a completion \<times> PreventShutdown) \<Rightarrow> PreventShutdown
     \<Rightarrow> 'a completion \<times> PreventShutdown" where
  "async_with body self =
     (let (c, self1) = body (aenter self);
          (suppress, self2) = aexit self1
      in ((case c of Raise e \<Rightarrow> if suppress then Normal else Raise e | _ \<Rightarrow> c), self2))"

text \<open>
  \<^verbatim>\<open>__call__\<close>: the decorated coroutine function runs
  \<^verbatim>\<open>async with self: return await function(*args, **kwargs)\<close>.
\<close>

definition decorated ::
  "(PreventShutdown \<Rightarrow> (exn + 'a) \<times> PreventShutdown) \<Rightarrow> PreventShutdown
     \<Rightarrow> 'a completion \<times> PreventShutdown" where
  "decorated function self =
     async_with
       (\<lambda>s. case function s of
               (Inl e, s') \<Rightarrow> (Raise e, s')
             | (Inr v, s') \<Rightarrow> (Return v, s'))
       self"

text \<open>
  \<^verbatim>\<open>allow_shutdown\<close> is a generator wrapped by \<^verbatim>\<open>contextlib.asynccontextmanager\<close>:
  the statements before \<^verbatim>\<open>yield\<close> run on entry and those after it when the body
  of the \<^verbatim>\<open>async with\<close> finishes without an exception. When the body raises, the
  exception is thrown into the generator at the \<^verbatim>\<open>yield\<close>, which is not inside a
  \<^verbatim>\<open>try\<close>: the generator ends there and the exception goes on to the caller.
\<close>

definition allow_shutdown ::
  "(PreventShutdown \<Rightarrow> 'a completion \<times> PreventShutdown) \<Rightarrow> PreventShutdown
     \<Rightarrow> 'a completion \<times> PreventShutdown" where
  "allow_shutdown body self =
     (let initial_state = attr_is_preventing_shutdown self;
          (c, self1) = body (self\<lparr>attr_is_preventing_shutdown := False\<rparr>)
      in (case c of
            Raise e \<Rightarrow> (Raise e, self1)
          | _ \<Rightarrow> (c, self1\<lparr>attr_is_preventing_shutdown := initial_state\<rparr>)))"

subsection \<open>GracefulShutdownHandler\<close>

record GracefulShutdownHandler =
  attr_is_shutting_down :: bool
  attr_is_running :: bool

text \<open>
  The class attribute \<open>_singleton\<close> is \<open>None\<close> or the one instance, given by its
  attributes. \<^verbatim>\<open>__new__\<close> hands out the instance stored there, or a fresh object
  that has no attributes yet (\<open>None\<close>) and that it stores; \<^verbatim>\<open>__init__\<close> assigns both
  attributes of the object it is given. The call \<^verbatim>\<open>GracefulShutdownHandler()\<close> runs
  \<^verbatim>\<open>__new__\<close> and then \<^verbatim>\<open>__init__\<close> on its result, and leaves the instance in
  \<open>_singleton\<close>.
\<close>

definition GracefulShutdownHandler_new ::
  "GracefulShutdownHandler option \<Rightarrow> GracefulShutdownHandler option" where
  "GracefulShutdownHandler_new singleton =
     (case singleton of None \<Rightarrow> None | Some instance \<Rightarrow> Some instance)"

definition GracefulShutdownHandler_init ::
  "GracefulShutdownHandler option \<Rightarrow> GracefulShutdownHandler" where
  "GracefulShutdownHandler_init obj =
     (case obj of
        None \<Rightarrow> \<lparr>attr_is_shutting_down = False, attr_is_running = False\<rparr>
      | Some self \<Rightarrow> self\<lparr>attr_is_shutting_down := False, attr_is_running := False\<rparr>)"

definition GracefulShutdownHandler_call ::
  "GracefulShutdownHandler option \<Rightarrow> GracefulShutdownHandler" where
  "GracefulShutdownHandler_call singleton =
     GracefulShutdownHandler_init (GracefulShutdownHandler_new singleton)"

text \<open>
  \<^verbatim>\<open>is_shutting_down()\<close>: the value it returns and the singleton it leaves behind.
\<close>

definition is_shutting_down ::
  "GracefulShutdownHandler option \<Rightarrow> bool \<times> GracefulShutdownHandler option" where
  "is_shutting_down singleton =
     (let self = GracefulShutdownHandler_call singleton
      in (attr_is_shutting_down self, Some self))"

datatype Signals = SIGINT | SIGTERM

fun Signals_name :: "Signals \<Rightarrow> string" where
  "Signals_name SIGINT = ''SIGINT''"
| "Signals_name SIGTERM = ''SIGTERM''"

text \<open>The signal handler: the new attributes and the line it logs.\<close>

definition shutdown_signal_handler ::
  "Signals \<Rightarrow> GracefulShutdownHandler \<Rightarrow> GracefulShutdownHandler \<times> string" where
  "shutdown_signal_handler sig self =
     (if \<not> attr_is_shutting_down self
      then (self\<lparr>attr_is_shutting_down := True\<rparr>,
            ''Shutdown signal received: '' @ Signals_name sig @ '', entering shutdown state'')
      else (self,
            ''Repeated shutdown signal received: '' @ Signals_name sig @ '', ignoring''))"

text \<open>
  \<^verbatim>\<open>run\<close> up to its loop: the check of \<open>_is_running\<close>, which raises, or the
  assignment; the two signal handlers are installed here.
\<close>

definition run_start :: "GracefulShutdownHandler \<Rightarrow> exn + GracefulShutdownHandler" where
  "run_start self =
     (if attr_is_running self
      then Inl (RuntimeError ''Graceful shutdown handler may be run only once'')
      else Inr (self\<lparr>attr_is_running := True\<rparr>))"

text \<open>
  The \<^verbatim>\<open>for ... else\<close> over \<open>GracefulShutdownCondition.instances\<close>. The loop
  awaits the predicate of each condition inside the iteration, so the rest of the
  program runs while a predicate is suspended. One step of the pass is therefore given
  by the condition that the iterator hands out, the state of the program that its
  predicate reads, and whether the set has, when the await returns, another size than
  when the iteration began: every construction of a condition adds it to the set
  (\<^verbatim>\<open>__new__\<close>), also during a pass.
\<close>

record 'w awaited =
  awaited_condition :: "'w GracefulShutdownCondition"
  seen :: 'w
  resized :: bool

text \<open>
  The first condition that is not ready breaks the loop and is logged by its
  description; a predicate that raises ends \<open>run\<close> with its exception. After a
  condition that is ready the loop asks the iterator for the next one, and the iterator
  of a set whose size has changed raises \<open>RuntimeError\<close>
  (\<open>Set changed size during iteration\<close>). The \<^verbatim>\<open>else\<close> branch is reached when
  the iterator is exhausted and no condition broke the loop.
\<close>

datatype poll =
  NotShuttingDown | Waiting string | AllSatisfied | PredicateRaised exn | SetChanged

fun check_conditions :: "'w awaited list \<Rightarrow> poll" where
  "check_conditions [] = AllSatisfied"
| "check_conditions (a # rest) =
     (case is_ready (awaited_condition a) (seen a) of
        Inl e \<Rightarrow> PredicateRaised e
      | Inr ready \<Rightarrow>
          if \<not> ready then Waiting (description (awaited_condition a))
          else if resized a then SetChanged
          else check_conditions rest)"

text \<open>
  While the loop sleeps, the rest of the program runs too. What reaches the handler:
  signals, and calls \<^verbatim>\<open>GracefulShutdownHandler()\<close> (those of
  \<open>is_shutting_down\<close> included). One turn of the loop is given by these events and by
  the pass over the conditions alive after the sleep.
\<close>

datatype event = Signal Signals | Constructed

fun event_step :: "event \<Rightarrow> GracefulShutdownHandler \<Rightarrow> GracefulShutdownHandler" where
  "event_step (Signal sig) self = fst (shutdown_signal_handler sig self)"
| "event_step Constructed self = GracefulShutdownHandler_call (Some self)"

record 'w tick =
  events :: "event list"
  polled :: "'w awaited list"

definition poll_once :: "GracefulShutdownHandler \<Rightarrow> 'w tick \<Rightarrow> poll" where
  "poll_once self t =
     (if \<not> attr_is_shutting_down self then NotShuttingDown
      else check_conditions (polled t))"

text \<open>
  The loop of \<open>run\<close> over the turns that are given: how it ended and after how many
  turns. \<open>Exited\<close> is \<^verbatim>\<open>raise SystemExit()\<close>; \<open>Propagated\<close> is an exception
  that the loop does not handle; \<open>StillPolling\<close> says that the loop has not ended
  within the given turns.
\<close>

datatype run_outcome = Exited | AlreadyRunning exn | Propagated exn | StillPolling

fun run_loop :: "GracefulShutdownHandler \<Rightarrow> 'w tick list \<Rightarrow> run_outcome \<times> nat" where
  "run_loop self [] = (StillPolling, 0)"
| "run_loop self (t # ts) =
     (let self' = fold event_step (events t) self
      in case poll_once self' t of
           AllSatisfied \<Rightarrow> (Exited, 1)
         | PredicateRaised e \<Rightarrow> (Propagated e, 1)
         | SetChanged \<Rightarrow> (Propagated (RuntimeError ''Set changed size during iteration''), 1)
         | _ \<Rightarrow> (let (outcome, n) = run_loop self' ts in (outcome, Suc n)))"

definition run :: "GracefulShutdownHandler \<Rightarrow> 'w tick list \<Rightarrow> run_outcome \<times> nat" where
  "run self ticks =
     (case run_start self of
        Inl e \<Rightarrow> (AlreadyRunning e, 0)
      | Inr self' \<Rightarrow> run_loop self' ticks)"

text \<open>
  A program that constructs the coordinator and calls \<open>run\<close> on the instance, in any
  order: the singleton and the number of loops that got past the check of \<open>run\<close>.
  Without an instance there is nothing to call \<open>run\<close> on.
\<close>

datatype call = Construct | Run

record process =
  attr_singleton :: "GracefulShutdownHandler option"
  loops_started :: nat

fun call_step :: "call \<Rightarrow> process \<Rightarrow> process" where
  "call_step Construct p = p\<lparr>attr_singleton := Some (GracefulShutdownHandler_call (attr_singleton p))\<rparr>"
| "call_step Run p =
     (case attr_singleton p of
        None \<Rightarrow> p
      | Some self \<Rightarrow>
          (case run_start self of
             Inl e \<Rightarrow> p
           | Inr self' \<Rightarrow> p\<lparr>attr_singleton := Some self', loops_started := Suc (loops_started p)\<rparr>))"

section \<open>Concrete inputs\<close>

definition failing_collaborators :: "(string, string, nat, string) collaborators" where
  "failing_collaborators =
     \<lparr>request_json = (\<lambda>b. if b = ''{'' then Inl JSONDecodeError else Inr b),
      de_json = (\<lambda>j. if j = ''null'' then Inr None else Inr (Some (length j))),
      process_new_updates = (\<lambda>r us. if us = [7] then Some CancelledError
                                      else Some (RuntimeError ''AAA!!!''))\<rparr>"

definition accepting_collaborators :: "(string, string, nat, string) collaborators" where
  "accepting_collaborators =
     \<lparr>request_json = (\<lambda>b. Inr b),
      de_json = (\<lambda>j. Inr (Some (length j))),
      process_new_updates = (\<lambda>r us. None)\<rparr>"

text \<open>
  One guard at address 0 of a store, entered while a background job runs and exited when
  the job is done, and the turns of the loop that see it.
\<close>

definition job_guard :: PreventShutdown where
  "job_guard = PreventShutdown_init ''performing background task 1''"

definition job_running :: "nat \<Rightarrow> PreventShutdown" where
  "job_running = (\<lambda>a. aenter job_guard)"

definition job_done :: "nat \<Rightarrow> PreventShutdown" where
  "job_done = (\<lambda>a. snd (aexit (aenter job_guard)))"

definition tick_job_running :: "(nat \<Rightarrow> PreventShutdown) tick" where
  "tick_job_running =
     \<lparr>events = [Signal SIGTERM],
      polled = [\<lparr>awaited_condition = as_condition 0 job_guard, seen = job_running,
                 resized = False\<rparr>]\<rparr>"

definition tick_job_done :: "(nat \<Rightarrow> PreventShutdown) tick" where
  "tick_job_done =
     \<lparr>events = [],
      polled = [\<lparr>awaited_condition = as_condition 0 job_guard, seen = job_done,
                 resized = False\<rparr>]\<rparr>"

text \<open>
  A condition of the base class whose predicate waits for something and then answers
  that it is ready, and a guard that a background job constructs, at address 1, while
  that predicate is suspended. In the first turn the job of address 0 is done, so every
  condition is ready; in the second it is still running and its guard comes after the
  waiting condition in the iteration.
\<close>

definition queue_drained :: "(nat \<Rightarrow> PreventShutdown) GracefulShutdownCondition" where
  "queue_drained = \<lparr>predicate = (\<lambda>store. Inr True), description = ''queue drained''\<rparr>"

definition new_guard :: PreventShutdown where
  "new_guard = PreventShutdown_init ''doing important stuff''"

definition tick_registration_all_ready :: "(nat \<Rightarrow> PreventShutdown) tick" where
  "tick_registration_all_ready =
     \<lparr>events = [],
      polled = [\<lparr>awaited_condition = queue_drained, seen = job_done(1 := new_guard),
                 resized = True\<rparr>,
                \<lparr>awaited_condition = as_condition 0 job_guard,
                 seen = job_done(1 := new_guard), resized = True\<rparr>]\<rparr>"

definition tick_registration_job_running :: "(nat \<Rightarrow> PreventShutdown) tick" where
  "tick_registration_job_running =
     \<lparr>events = [],
      polled = [\<lparr>awaited_condition = queue_drained, seen = job_running(1 := new_guard),
                 resized = True\<rparr>,
                \<lparr>awaited_condition = as_condition 0 job_guard,
                 seen = job_running(1 := new_guard), resized = True\<rparr>]\<rparr>"

section \<open>Properties of the webhook handler\<close>

lemma finally_clause_Return: "finally_clause pending (Return r) = Return r"
  by (simp add: finally_clause_def)

lemma bot_runner_by_route_fold:
  "dom (fold (\<lambda>bw m. m(webhook_route bw \<mapsto> bw)) bot_runners m0) =
     dom m0 \<union> webhook_route ` set bot_runners"
  by (induction bot_runners arbitrary: m0) auto

lemma bot_runner_by_route_mapped:
  "dom (bot_runner_by_route webhook_route bot_runners) = webhook_route ` set bot_runners"
  by (simp add: bot_runner_by_route_def bot_runner_by_route_fold)

text \<open>
  C1. When the route segment of the request maps to a hosted bot, the handler completes
  by returning a response with status 200, whatever the body is and whatever the
  collaborators do: the JSON parser or the decoder may raise, the decoder may give no
  update, the bot's processing may raise any exception (one outside \<open>Exception\<close>
  included). The handler never completes by raising.
\<close>

theorem handle_update_mapped_route_200:
  assumes "match_info request ''route'' = Some route"
    and "by_route route = Some bot_runner"
  shows "fst (handle_update ext by_route request) = Return \<lparr>status = 200\<rparr>"
  using assms
  by (simp add: handle_update_def finally_clause_Return web_Response_def
      split: prod.split completion.split)

theorem handle_update_mapped_route_200_witness:
  "fst (handle_update failing_collaborators
          (bot_runner_by_route id [''testing-bot''])
          \<lparr>match_info = [''route'' \<mapsto> ''testing-bot''], payload = ''{''\<rparr>)
     = Return \<lparr>status = 200\<rparr>
   \<and> fst (handle_update failing_collaborators
          (bot_runner_by_route id [''testing-bot''])
          \<lparr>match_info = [''route'' \<mapsto> ''testing-bot''], payload = ''/error''\<rparr>)
     = Return \<lparr>status = 200\<rparr>
   \<and> fst (handle_update failing_collaborators
          (bot_runner_by_route id [''testing-bot''])
          \<lparr>match_info = [''route'' \<mapsto> ''testing-bot''], payload = ''/cancel''\<rparr>)
     = Return \<lparr>status = 200\<rparr>"
proof -
  have mapped: "bot_runner_by_route id [''testing-bot''] ''testing-bot'' = Some ''testing-bot''"
    by (simp add: bot_runner_by_route_def)
  have "fst (handle_update failing_collaborators (bot_runner_by_route id [''testing-bot''])
              \<lparr>match_info = [''route'' \<mapsto> ''testing-bot''], payload = b\<rparr>)
          = Return \<lparr>status = 200\<rparr>" for b :: string
    using handle_update_mapped_route_200
      [where route = "''testing-bot''" and by_route = "bot_runner_by_route id [''testing-bot'']"
         and request = "\<lparr>match_info = [''route'' \<mapsto> ''testing-bot''], payload = b\<rparr>"
         and ext = failing_collaborators and bot_runner = "''testing-bot''"]
      mapped
    by simp
  then show ?thesis
    by simp
qed

text \<open>
  C8. A request whose path gave no route segment is answered with status 404, and a
  request whose route segment is not a key of the routing table is answered with
  status 403; in both cases nothing is processed or logged.
\<close>

theorem handle_update_404_403:
  "(match_info request ''route'' = None \<longrightarrow>
      handle_update ext by_route request = (Return \<lparr>status = 404\<rparr>, []))
   \<and> (\<forall>route. match_info request ''route'' = Some route \<and> by_route route = None \<longrightarrow>
      handle_update ext by_route request = (Return \<lparr>status = 403\<rparr>, []))"
  by (simp add: handle_update_def web_Response_def)

theorem handle_update_404_403_witness:
  "handle_update failing_collaborators (bot_runner_by_route id [''testing-bot''])
      \<lparr>match_info = Map.empty, payload = ''/start''\<rparr> = (Return \<lparr>status = 404\<rparr>, [])
   \<and> handle_update failing_collaborators (bot_runner_by_route id [''testing-bot''])
      \<lparr>match_info = [''route'' \<mapsto> ''unknown-route''], payload = ''/start''\<rparr>
        = (Return \<lparr>status = 403\<rparr>, [])"
proof -
  have unmapped: "bot_runner_by_route id [''testing-bot''] ''unknown-route'' = None"
    by (simp add: bot_runner_by_route_def)
  show ?thesis
    using handle_update_404_403
      [of "\<lparr>match_info = Map.empty, payload = ''/start''\<rparr>" failing_collaborators
          "bot_runner_by_route id [''testing-bot'']"]
      handle_update_404_403
      [of "\<lparr>match_info = [''route'' \<mapsto> ''unknown-route''], payload = ''/start''\<rparr>"
          failing_collaborators "bot_runner_by_route id [''testing-bot'']"]
      unmapped
    by simp
qed


section \<open>Properties of the polling loop\<close>

lemma check_conditions_blocked:
  "\<exists>a\<in>set as. is_ready (awaited_condition a) (seen a) = Inr False
     \<Longrightarrow> check_conditions as \<noteq> AllSatisfied"
  by (induction as) (auto split: sum.split)

lemma check_conditions_Waiting:
  "\<exists>a\<in>set as. is_ready (awaited_condition a) (seen a) = Inr False
     \<Longrightarrow> \<forall>a\<in>set as. \<exists>b. is_ready (awaited_condition a) (seen a) = Inr b
     \<Longrightarrow> \<forall>a\<in>set as. \<not> resized a
     \<Longrightarrow> \<exists>d. check_conditions as = Waiting d"
  by (induction as) (auto split: sum.split)

lemma check_conditions_AllSatisfied_iff:
  "(check_conditions as = AllSatisfied) =
     (\<forall>a\<in>set as. is_ready (awaited_condition a) (seen a) = Inr True \<and> \<not> resized a)"
  by (induction as) (auto split: sum.split)

lemma check_conditions_all_ready:
  "\<forall>a\<in>set as. is_ready (awaited_condition a) (seen a) = Inr True
     \<Longrightarrow> \<forall>a\<in>set as. \<not> resized a
     \<Longrightarrow> check_conditions as = AllSatisfied"
  by (simp add: check_conditions_AllSatisfied_iff)

text \<open>
  The set changes size under the pass: the first condition that is ready and sees the
  set resized ends the pass with \<open>SetChanged\<close>, whatever the conditions after it
  would answer.
\<close>

lemma check_conditions_resized:
  "is_ready (awaited_condition a) (seen a) = Inr True \<Longrightarrow> resized a
     \<Longrightarrow> check_conditions (a # rest) = SetChanged"
  by simp

lemma event_step_keeps_shutting_down:
  "attr_is_shutting_down self \<Longrightarrow> Constructed \<notin> set evs
     \<Longrightarrow> fold event_step evs self = self"
proof (induction evs)
  case Nil
  show ?case by simp
next
  case (Cons ev evs)
  then show ?case
    by (cases ev) (simp_all add: shutdown_signal_handler_def)
qed

text \<open>
  Whatever else happens, the loop does not raise the process exit in turns in which
  some condition of the pass is not ready.
\<close>

lemma run_loop_never_exits_blocked:
  "\<forall>t\<in>set ticks. \<exists>a\<in>set (polled t). is_ready (awaited_condition a) (seen a) = Inr False
     \<Longrightarrow> fst (run_loop self ticks) \<noteq> Exited"
proof (induction ticks arbitrary: self)
  case Nil
  show ?case by simp
next
  case (Cons t ts)
  have "check_conditions (polled t) \<noteq> AllSatisfied"
    using Cons.prems by (simp add: check_conditions_blocked)
  moreover have "fst (run_loop s ts) \<noteq> Exited" for s
    using Cons by simp
  ultimately show ?case
    by (simp add: Let_def poll_once_def split: poll.split prod.split) (metis fst_conv)
qed

lemma run_loop_append_polling:
  assumes "attr_is_shutting_down self"
    and "\<forall>t\<in>set pre. Constructed \<notin> set (events t)"
    and "\<forall>t\<in>set pre. \<exists>a\<in>set (polled t). is_ready (awaited_condition a) (seen a) = Inr False"
    and "\<forall>t\<in>set pre. \<forall>a\<in>set (polled t).
           (\<exists>b. is_ready (awaited_condition a) (seen a) = Inr b) \<and> \<not> resized a"
  shows "run_loop self (pre @ rest)
           = (fst (run_loop self rest), length pre + snd (run_loop self rest))"
  using assms(2-)
proof (induction pre)
  case Nil
  show ?case by simp
next
  case (Cons t ts)
  have same: "fold event_step (events t) self = self"
    using assms(1) Cons.prems(1) by (simp add: event_step_keeps_shutting_down)
  obtain d where "check_conditions (polled t) = Waiting d"
    using check_conditions_Waiting [of "polled t"] Cons.prems by auto
  moreover have "run_loop self (ts @ rest)
      = (fst (run_loop self rest), length ts + snd (run_loop self rest))"
    using Cons by simp
  ultimately show ?case
    using assms(1) by (simp add: same poll_once_def)
qed

text \<open>
  When no condition is constructed while a pass is suspended (as is the case when all
  conditions are guards, whose predicates never suspend), every predicate returns a
  truth value and nothing constructs the coordinator anew: a loop that is shutting down
  is still polling after turns in each of which some condition is not ready, and ends
  by \<^verbatim>\<open>raise SystemExit()\<close> in the first turn in which all are ready.
\<close>

lemma run_loop_without_registration:
  assumes shutting: "attr_is_shutting_down self"
    and no_reset: "\<forall>t'\<in>set (pre @ t # post). Constructed \<notin> set (events t')"
    and blocked: "\<forall>t'\<in>set pre.
           \<exists>a\<in>set (polled t'). is_ready (awaited_condition a) (seen a) = Inr False"
    and reports: "\<forall>t'\<in>set pre. \<forall>a\<in>set (polled t').
           (\<exists>b. is_ready (awaited_condition a) (seen a) = Inr b) \<and> \<not> resized a"
    and ready: "\<forall>a\<in>set (polled t).
           is_ready (awaited_condition a) (seen a) = Inr True \<and> \<not> resized a"
  shows "run_loop self pre = (StillPolling, length pre)"
    and "run_loop self (pre @ t # post) = (Exited, Suc (length pre))"
proof -
  have no_reset_pre: "\<forall>t\<in>set pre. Constructed \<notin> set (events t)"
    using no_reset by simp
  show "run_loop self pre = (StillPolling, length pre)"
    using run_loop_append_polling [OF shutting no_reset_pre blocked reports, of "[]"]
    by simp
  have same: "fold event_step (events t) self = self"
    using shutting no_reset by (simp add: event_step_keeps_shutting_down)
  have "check_conditions (polled t) = AllSatisfied"
    using ready by (simp add: check_conditions_AllSatisfied_iff)
  then have here: "run_loop self (t # post) = (Exited, 1)"
    using shutting by (simp add: same poll_once_def)
  have "run_loop self (pre @ t # post)
      = (fst (run_loop self (t # post)), length pre + snd (run_loop self (t # post)))"
    by (rule run_loop_append_polling [OF shutting no_reset_pre blocked reports])
  then show "run_loop self (pre @ t # post) = (Exited, Suc (length pre))"
    using here by simp
qed

lemma run_loop_background_job:
  "run_loop \<lparr>attr_is_shutting_down = True, attr_is_running = True\<rparr>
      [tick_job_running, tick_job_running, tick_job_done] = (Exited, 3)
   \<and> run_loop \<lparr>attr_is_shutting_down = True, attr_is_running = True\<rparr>
      [tick_job_running, tick_job_running] = (StillPolling, 2)"
  by (simp add: tick_job_running_def tick_job_done_def poll_once_def is_ready_def
      as_condition_def job_running_def job_done_def job_guard_def PreventShutdown_init_def
      is_ready_to_shutdown_def aenter_def aexit_def shutdown_signal_handler_def)

text \<open>
  C3. The coordinator is shutting down. A condition whose predicate suspends answers
  that it is ready, and while it was suspended a background job has constructed a
  guard, which is ready too. With the job at address 0 done, every alive condition is
  ready, yet the loop does not raise the process exit: the pass over the set ends with
  \<open>RuntimeError\<close> and \<open>run\<close> with it. With that job still running, its guard reports
  not-ready, yet the loop does not go on polling: it ends in the same way, in the first
  turn, and the later turn in which all would be ready is never reached.
\<close>

theorem run_loop_set_changed_during_pass:
  "run_loop \<lparr>attr_is_shutting_down = True, attr_is_running = True\<rparr>
      [tick_registration_all_ready]
     = (Propagated (RuntimeError ''Set changed size during iteration''), 1)
   \<and> is_ready queue_drained (job_done(1 := new_guard)) = Inr True
   \<and> is_ready (as_condition 0 job_guard) (job_done(1 := new_guard)) = Inr True
   \<and> is_ready (as_condition 1 new_guard) (job_done(1 := new_guard)) = Inr True
   \<and> run_loop \<lparr>attr_is_shutting_down = True, attr_is_running = True\<rparr>
      [tick_registration_job_running, tick_job_done]
     = (Propagated (RuntimeError ''Set changed size during iteration''), 1)
   \<and> is_ready (as_condition 0 job_guard) (job_running(1 := new_guard)) = Inr False"
  by (simp add: tick_registration_all_ready_def tick_registration_job_running_def
      poll_once_def is_ready_def queue_drained_def as_condition_def new_guard_def
      job_running_def job_done_def job_guard_def PreventShutdown_init_def
      is_ready_to_shutdown_def aenter_def aexit_def)

section \<open>Properties of the shutdown guard\<close>

text \<open>
  C4. The readiness predicate of a guard is true exactly when its blocking flag is
  false. Entering the guard makes it report not-ready and exiting makes it report
  ready; the condition that the coordinator holds for the guard reads the guard as it
  is at the poll, so a poll finds the condition unsatisfied after the entry and
  satisfied after the exit (a pass over a set that was resized under it ends with the
  iterator's error once the guard has answered that it is ready).
\<close>

theorem guard_predicate_tracks_flag:
  "is_ready_to_shutdown self = (\<not> attr_is_preventing_shutdown self)
   \<and> \<not> is_ready_to_shutdown (aenter self)
   \<and> is_ready_to_shutdown (snd (aexit self))
   \<and> is_ready (as_condition a g) store = Inr (\<not> attr_is_preventing_shutdown (store a))
   \<and> is_ready (as_condition a g) (store(a := aenter self)) = Inr False
   \<and> is_ready (as_condition a g) (store(a := snd (aexit (aenter self)))) = Inr True
   \<and> check_conditions
        [\<lparr>awaited_condition = as_condition a g, seen = store(a := aenter self), resized = r\<rparr>]
        = Waiting (''Preventing shutdown, '' @ attr_reason g)
   \<and> check_conditions
        [\<lparr>awaited_condition = as_condition a g, seen = store(a := snd (aexit (aenter self))),
          resized = r\<rparr>]
        = (if r then SetChanged else AllSatisfied)"
  by (simp add: is_ready_to_shutdown_def aenter_def aexit_def is_ready_def as_condition_def)

text \<open>
  A sub-scope whose body ends without an exception gives the body a guard with the flag
  false and puts back the value the flag had on entry, whatever the body did to the
  flag; so does any number of sub-scopes nested directly in each other.
\<close>

lemma allow_shutdown_completes:
  assumes "\<forall>s e. fst (body s) \<noteq> Raise e"
  shows "allow_shutdown body self =
           (fst (body (self\<lparr>attr_is_preventing_shutdown := False\<rparr>)),
            (snd (body (self\<lparr>attr_is_preventing_shutdown := False\<rparr>)))
              \<lparr>attr_is_preventing_shutdown := attr_is_preventing_shutdown self\<rparr>)"
proof -
  obtain c s' where b: "body (self\<lparr>attr_is_preventing_shutdown := False\<rparr>) = (c, s')"
    by (cases "body (self\<lparr>attr_is_preventing_shutdown := False\<rparr>)")
  have "\<forall>e. c \<noteq> Raise e"
    using assms b by (metis fst_conv)
  then show ?thesis
    by (cases c) (simp_all add: allow_shutdown_def b)
qed

lemma allow_shutdown_nested_restores:
  assumes "\<forall>s e. fst (body s) \<noteq> Raise e"
  shows "(allow_shutdown ^^ Suc n) body self =
           (fst (body (self\<lparr>attr_is_preventing_shutdown := False\<rparr>)),
            (snd (body (self\<lparr>attr_is_preventing_shutdown := False\<rparr>)))
              \<lparr>attr_is_preventing_shutdown := attr_is_preventing_shutdown self\<rparr>)"
proof (induction n arbitrary: self)
  case 0
  show ?case
    using allow_shutdown_completes [OF assms] by simp
next
  case (Suc n)
  define inner where "inner = (allow_shutdown ^^ Suc n) body"
  define s0 where "s0 = self\<lparr>attr_is_preventing_shutdown := False\<rparr>"
  have inner_eq: "inner s = (fst (body (s\<lparr>attr_is_preventing_shutdown := False\<rparr>)),
            (snd (body (s\<lparr>attr_is_preventing_shutdown := False\<rparr>)))
              \<lparr>attr_is_preventing_shutdown := attr_is_preventing_shutdown s\<rparr>)" for s
    unfolding inner_def by (rule Suc.IH)
  have inner_ok: "\<forall>s e. fst (inner s) \<noteq> Raise e"
    using assms by (simp add: inner_eq)
  have "(allow_shutdown ^^ Suc (Suc n)) body self = allow_shutdown inner self"
    by (simp add: inner_def)
  also have "\<dots> = (fst (inner s0),
            (snd (inner s0))\<lparr>attr_is_preventing_shutdown := attr_is_preventing_shutdown self\<rparr>)"
    unfolding s0_def by (rule allow_shutdown_completes [OF inner_ok])
  also have "\<dots> = (fst (body s0),
            (snd (body s0))\<lparr>attr_is_preventing_shutdown := attr_is_preventing_shutdown self\<rparr>)"
    by (simp add: inner_eq s0_def)
  finally show ?case
    by (simp add: s0_def)
qed

text \<open>
  C5. A sub-scope opened while the flag is true, whose body raises (here the
  cancellation of the sleep inside it): the exception passes through the generator at
  its \<^verbatim>\<open>yield\<close>, the assignment that restores the flag is not reached, and the flag
  is false after the sub-scope although it was true on entry. When the guarded work
  catches the exception and goes on, it goes on with a guard that reports ready.
\<close>

theorem allow_shutdown_raise_skips_restore:
  "allow_shutdown (\<lambda>s. (Raise CancelledError, s))
      \<lparr>attr_is_preventing_shutdown = True, attr_reason = ''updating user info''\<rparr>
     = (Raise CancelledError :: unit completion,
        \<lparr>attr_is_preventing_shutdown = False, attr_reason = ''updating user info''\<rparr>)
   \<and> fst (async_with
        (\<lambda>s. let (c, s') = allow_shutdown (\<lambda>s. (Raise (OtherException ''timeout''), s)) s
               in (Return (is_ready_to_shutdown s'), s'))
        (PreventShutdown_init ''updating user info''))
     = Return True"
  by (simp add: allow_shutdown_def async_with_def aenter_def aexit_def
      PreventShutdown_init_def is_ready_to_shutdown_def)

text \<open>
  C10. The exit of a guard sets the flag to false whatever it was, also after the
  \<^verbatim>\<open>allow_shutdown\<close> or the body left it true or false. The \<^verbatim>\<open>async with\<close>
  statement completes as its body did (a raised exception is raised again, a returned
  value returned), for the decorated coroutine function too, and in every case the
  guard reports ready afterwards.
\<close>

theorem guard_exit_unconditional:
  "snd (aexit self) = self\<lparr>attr_is_preventing_shutdown := False\<rparr>
   \<and> fst (async_with body self) = fst (body (aenter self))
   \<and> is_ready_to_shutdown (snd (async_with body self))
   \<and> fst (decorated function self)
       = (case fst (function (aenter self)) of Inl e \<Rightarrow> Raise e | Inr v \<Rightarrow> Return v)
   \<and> is_ready_to_shutdown (snd (decorated function self))"
  by (simp add: async_with_def decorated_def aexit_def is_ready_to_shutdown_def
      split: prod.split completion.split sum.split)

section \<open>Properties of the coordinator\<close>

text \<open>
  C6. The signal handler leaves the coordinator shutting down and does not touch
  \<open>_is_running\<close>. A signal that arrives when the coordinator is already shutting down
  is logged as repeated and leaves the attributes as they are: two signals give the
  state that one gives, in the handler, in the events of a turn and in what the loop
  does afterwards.
\<close>

theorem shutdown_signal_idempotent:
  "fst (shutdown_signal_handler sig self) = self\<lparr>attr_is_shutting_down := True\<rparr>
   \<and> snd (shutdown_signal_handler sig self)
       = (if attr_is_shutting_down self
          then ''Repeated shutdown signal received: '' @ Signals_name sig @ '', ignoring''
          else ''Shutdown signal received: '' @ Signals_name sig @ '', entering shutdown state'')
   \<and> shutdown_signal_handler sig' (fst (shutdown_signal_handler sig self))
       = (fst (shutdown_signal_handler sig self),
          ''Repeated shutdown signal received: '' @ Signals_name sig' @ '', ignoring'')
   \<and> fold event_step (Signal sig # Signal sig' # evs) self
       = fold event_step (Signal sig # evs) self
   \<and> run_loop (fst (shutdown_signal_handler sig' (fst (shutdown_signal_handler sig self)))) ticks
       = run_loop (fst (shutdown_signal_handler sig self)) ticks"
  by (simp add: shutdown_signal_handler_def)

text \<open>
  C9. Whatever the singleton is before the call (absent, shutting down, running),
  \<open>is_shutting_down()\<close> returns \<open>False\<close> and leaves a singleton with both
  attributes false, as every call of the constructor does.
\<close>

theorem is_shutting_down_resets:
  "fst (is_shutting_down inst) = False
   \<and> snd (is_shutting_down inst)
       = Some \<lparr>attr_is_shutting_down = False, attr_is_running = False\<rparr>
   \<and> GracefulShutdownHandler_call inst
       = \<lparr>attr_is_shutting_down = False, attr_is_running = False\<rparr>"
  by (simp add: is_shutting_down_def GracefulShutdownHandler_call_def
      GracefulShutdownHandler_init_def GracefulShutdownHandler_new_def Let_def
      split: option.split)

text \<open>
  On one instance that is not constructed again, the second call of \<open>run\<close> raises and
  starts nothing.
\<close>

lemma run_start_twice:
  "run_start self = Inr self' \<Longrightarrow>
     run_start self' = Inl (RuntimeError ''Graceful shutdown handler may be run only once'')"
  by (auto simp: run_start_def split: if_splits)

lemma run_on_running_instance:
  "attr_is_running self \<Longrightarrow>
     run self ticks
       = (AlreadyRunning (RuntimeError ''Graceful shutdown handler may be run only once''), 0)"
  by (simp add: run_def run_start_def)

lemma run_enters_loop:
  "\<not> attr_is_running self \<Longrightarrow>
     run self ticks = run_loop (self\<lparr>attr_is_running := True\<rparr>) ticks"
  by (simp add: run_def run_start_def)

lemma run_twice_same_instance:
  "call_step Run (call_step Run p) = call_step Run p"
  by (auto simp: run_start_def split: option.split)

text \<open>
  C7. Construct the coordinator and start its loop, then do both again: the second
  construction clears \<open>_is_running\<close> on the singleton, the second call of \<open>run\<close>
  passes the check, and two loops have been started.
\<close>

theorem second_run_after_construct:
  "fold call_step [Construct, Run, Construct, Run]
      \<lparr>attr_singleton = None, loops_started = 0\<rparr>
     = \<lparr>attr_singleton = Some \<lparr>attr_is_shutting_down = False, attr_is_running = True\<rparr>,
        loops_started = 2\<rparr>"
  by (simp add: GracefulShutdownHandler_call_def GracefulShutdownHandler_init_def
      GracefulShutdownHandler_new_def run_start_def)

text \<open>
  C2. The coordinator has received SIGTERM and is shutting down. A request for a hosted
  bot that arrives now is decoded, handed to the bot and answered with status 200: the
  handler does not consult the coordinator, and \<open>is_shutting_down()\<close> would answer
  \<open>False\<close> at this moment.
\<close>

theorem handle_update_during_shutdown:
  "attr_is_shutting_down
      (fst (shutdown_signal_handler SIGTERM
              \<lparr>attr_is_shutting_down = False, attr_is_running = True\<rparr>))
   \<and> handle_update accepting_collaborators (bot_runner_by_route id [''testing''])
        \<lparr>match_info = [''route'' \<mapsto> ''testing''], payload = ''hello world''\<rparr>
       = (Return \<lparr>status = 200\<rparr>, [Processed ''testing'' [11]])
   \<and> fst (is_shutting_down
        (Some (fst (shutdown_signal_handler SIGTERM
                      \<lparr>attr_is_shutting_down = False, attr_is_running = True\<rparr>))))
       = False"
  by (simp add: shutdown_signal_handler_def handle_update_def try_block_def
      accepting_collaborators_def bot_runner_by_route_def web_Response_def
      finally_clause_def is_shutting_down_def GracefulShutdownHandler_call_def
      GracefulShutdownHandler_init_def GracefulShutdownHandler_new_def)

end
